theory Spec2Isabelle
  imports Main "HOL-Library.Word"
begin

section \<open>Device controls of Source.cpp\<close>

text \<open>
  The four device classes of \<^verbatim>\<open>src/Source.cpp\<close> are embedded as records with the
  fields of the classes. A member function that writes to \<^verbatim>\<open>std::cout\<close> returns the
  object after the call together with the lines it printed (each
  \<^verbatim>\<open><< ... << std::endl\<close> is one line). The C++ type \<^verbatim>\<open>int\<close> is a 32-bit word that is
  read in two's complement by \<open>sint\<close>.
\<close>

type_synonym cint = "32 word"

type_synonym addr = nat

text \<open>
  Objects that are reached through references live in a store; \<^verbatim>\<open>this\<close> and
  \<^verbatim>\<open>other\<close> are addresses of the store, so that \<^verbatim>\<open>this != &other\<close> is a comparison
  of addresses.
\<close>

type_synonym 'a store = "addr \<Rightarrow> 'a"

subsection \<open>Printing an int\<close>

text \<open>
  \<^verbatim>\<open>std::cout << temp\<close> prints the decimal digits of the value, with a leading minus
  sign when it is negative (the stream's formatting flags are never changed).
\<close>

definition digit :: "nat \<Rightarrow> char" where
  "digit d = ''0123456789'' ! d"

fun show_nat :: "nat \<Rightarrow> string" where
  "show_nat n = (if n < 10 then [digit n] else show_nat (n div 10) @ [digit (n mod 10)])"

declare show_nat.simps [simp del]

definition show_int :: "int \<Rightarrow> string" where
  "show_int i = (if i < 0 then CHR ''-'' # show_nat (nat (- i)) else show_nat (nat i))"

subsection \<open>LightControl\<close>

record LightControl =
  isOn :: bool

definition LightControl_ctor :: "LightControl" where
  "LightControl_ctor = \<lparr>LightControl.isOn = False\<rparr>"

definition LightControl_doTurnOn :: "LightControl \<Rightarrow> LightControl \<times> string list" where
  "LightControl_doTurnOn this = (this\<lparr>LightControl.isOn := True\<rparr>, [''Light is ON''])"

definition LightControl_doTurnOff :: "LightControl \<Rightarrow> LightControl \<times> string list" where
  "LightControl_doTurnOff this = (this\<lparr>LightControl.isOn := False\<rparr>, [''Light is OFF''])"

text \<open>
  \<^verbatim>\<open>ElectronicDeviceControl<LightControl>::turnOn\<close> and \<^verbatim>\<open>turnOff\<close>: the base class
  template casts \<^verbatim>\<open>this\<close> to the derived class and calls its \<^verbatim>\<open>doTurnOn\<close> or
  \<^verbatim>\<open>doTurnOff\<close>.
\<close>

definition LightControl_turnOn :: "LightControl \<Rightarrow> LightControl \<times> string list" where
  "LightControl_turnOn this = LightControl_doTurnOn this"

definition LightControl_turnOff :: "LightControl \<Rightarrow> LightControl \<times> string list" where
  "LightControl_turnOff this = LightControl_doTurnOff this"

definition isLightOn :: "LightControl \<Rightarrow> bool" where
  "isLightOn this = LightControl.isOn this"

definition LightControl_copy_ctor :: "LightControl \<Rightarrow> LightControl" where
  "LightControl_copy_ctor other = \<lparr>LightControl.isOn = LightControl.isOn other\<rparr>"

definition LightControl_copy_assign :: "addr \<Rightarrow> addr \<Rightarrow> LightControl store \<Rightarrow> LightControl store" where
  "LightControl_copy_assign this other h =
     (if this \<noteq> other then
        h(this := (h this)\<lparr>LightControl.isOn := LightControl.isOn (h other)\<rparr>)
      else h)"

text \<open>
  The move constructor builds a new object and writes to the one it moves from: it
  returns the new object and the moved-from object.
\<close>

definition LightControl_move_ctor :: "LightControl \<Rightarrow> LightControl \<times> LightControl" where
  "LightControl_move_ctor other =
     (let this = \<lparr>LightControl.isOn = LightControl.isOn other\<rparr>;
          other1 = other\<lparr>LightControl.isOn := False\<rparr>
      in (this, other1))"

definition LightControl_move_assign :: "addr \<Rightarrow> addr \<Rightarrow> LightControl store \<Rightarrow> LightControl store" where
  "LightControl_move_assign this other h =
     (if this \<noteq> other then
        let h1 = h(this := (h this)\<lparr>LightControl.isOn := LightControl.isOn (h other)\<rparr>);
            h2 = h1(other := (h1 other)\<lparr>LightControl.isOn := False\<rparr>)
        in h2
      else h)"

subsection \<open>ThermostatControl\<close>

record ThermostatControl =
  isOn :: bool
  temperature :: cint

definition ThermostatControl_ctor :: "ThermostatControl" where
  "ThermostatControl_ctor = \<lparr>ThermostatControl.isOn = False, temperature = 20\<rparr>"

definition ThermostatControl_doTurnOn :: "ThermostatControl \<Rightarrow> ThermostatControl \<times> string list" where
  "ThermostatControl_doTurnOn this =
     (this\<lparr>ThermostatControl.isOn := True\<rparr>, [''Thermostat is ON''])"

definition ThermostatControl_doTurnOff :: "ThermostatControl \<Rightarrow> ThermostatControl \<times> string list" where
  "ThermostatControl_doTurnOff this =
     (this\<lparr>ThermostatControl.isOn := False\<rparr>, [''Thermostat is OFF''])"

definition ThermostatControl_turnOn :: "ThermostatControl \<Rightarrow> ThermostatControl \<times> string list" where
  "ThermostatControl_turnOn this = ThermostatControl_doTurnOn this"

definition ThermostatControl_turnOff :: "ThermostatControl \<Rightarrow> ThermostatControl \<times> string list" where
  "ThermostatControl_turnOff this = ThermostatControl_doTurnOff this"

definition setTemperature :: "ThermostatControl \<Rightarrow> cint \<Rightarrow> ThermostatControl \<times> string list" where
  "setTemperature this temp =
     (if ThermostatControl.isOn this \<and> 10 \<le> sint temp \<and> sint temp \<le> 30 then
        (this\<lparr>temperature := temp\<rparr>,
         [''Thermostat temperature set to: '' @ show_int (sint temp)])
      else if \<not> ThermostatControl.isOn this then
        (this, [''Cannot set temperature, thermostat is off.''])
      else
        (this, [''Invalid temperature. Temperature must be between 10 and 30.'']))"

definition getTemperature :: "ThermostatControl \<Rightarrow> cint" where
  "getTemperature this = temperature this"

definition ThermostatControl_copy_ctor :: "ThermostatControl \<Rightarrow> ThermostatControl" where
  "ThermostatControl_copy_ctor other =
     \<lparr>ThermostatControl.isOn = ThermostatControl.isOn other, temperature = temperature other\<rparr>"

definition ThermostatControl_copy_assign ::
  "addr \<Rightarrow> addr \<Rightarrow> ThermostatControl store \<Rightarrow> ThermostatControl store" where
  "ThermostatControl_copy_assign this other h =
     (if this \<noteq> other then
        let h1 = h(this := (h this)\<lparr>ThermostatControl.isOn := ThermostatControl.isOn (h other)\<rparr>);
            h2 = h1(this := (h1 this)\<lparr>temperature := temperature (h1 other)\<rparr>)
        in h2
      else h)"

definition ThermostatControl_move_ctor :: "ThermostatControl \<Rightarrow> ThermostatControl \<times> ThermostatControl" where
  "ThermostatControl_move_ctor other =
     (let this = \<lparr>ThermostatControl.isOn = ThermostatControl.isOn other,
                  temperature = temperature other\<rparr>;
          other1 = other\<lparr>ThermostatControl.isOn := False\<rparr>;
          other2 = other1\<lparr>temperature := 0\<rparr>
      in (this, other2))"

definition ThermostatControl_move_assign ::
  "addr \<Rightarrow> addr \<Rightarrow> ThermostatControl store \<Rightarrow> ThermostatControl store" where
  "ThermostatControl_move_assign this other h =
     (if this \<noteq> other then
        let h1 = h(this := (h this)\<lparr>ThermostatControl.isOn := ThermostatControl.isOn (h other)\<rparr>);
            h2 = h1(this := (h1 this)\<lparr>temperature := temperature (h1 other)\<rparr>);
            h3 = h2(other := (h2 other)\<lparr>ThermostatControl.isOn := False\<rparr>);
            h4 = h3(other := (h3 other)\<lparr>temperature := 0\<rparr>)
        in h4
      else h)"

subsection \<open>SmartLockControl\<close>

record SmartLockControl =
  isLocked :: bool

definition SmartLockControl_ctor :: "SmartLockControl" where
  "SmartLockControl_ctor = \<lparr>isLocked = True\<rparr>"

definition SmartLockControl_doTurnOn :: "SmartLockControl \<Rightarrow> SmartLockControl \<times> string list" where
  "SmartLockControl_doTurnOn this = (this\<lparr>isLocked := False\<rparr>, [''Smart Lock is UNLOCKED''])"

definition SmartLockControl_doTurnOff :: "SmartLockControl \<Rightarrow> SmartLockControl \<times> string list" where
  "SmartLockControl_doTurnOff this = (this\<lparr>isLocked := True\<rparr>, [''Smart Lock is LOCKED''])"

definition SmartLockControl_turnOn :: "SmartLockControl \<Rightarrow> SmartLockControl \<times> string list" where
  "SmartLockControl_turnOn this = SmartLockControl_doTurnOn this"

definition SmartLockControl_turnOff :: "SmartLockControl \<Rightarrow> SmartLockControl \<times> string list" where
  "SmartLockControl_turnOff this = SmartLockControl_doTurnOff this"

definition getLockStatus :: "SmartLockControl \<Rightarrow> bool" where
  "getLockStatus this = isLocked this"

definition SmartLockControl_copy_ctor :: "SmartLockControl \<Rightarrow> SmartLockControl" where
  "SmartLockControl_copy_ctor other = \<lparr>isLocked = isLocked other\<rparr>"

definition SmartLockControl_copy_assign ::
  "addr \<Rightarrow> addr \<Rightarrow> SmartLockControl store \<Rightarrow> SmartLockControl store" where
  "SmartLockControl_copy_assign this other h =
     (if this \<noteq> other then h(this := (h this)\<lparr>isLocked := isLocked (h other)\<rparr>) else h)"

definition SmartLockControl_move_ctor :: "SmartLockControl \<Rightarrow> SmartLockControl \<times> SmartLockControl" where
  "SmartLockControl_move_ctor other =
     (let this = \<lparr>isLocked = isLocked other\<rparr>;
          other1 = other\<lparr>isLocked := True\<rparr>
      in (this, other1))"

definition SmartLockControl_move_assign ::
  "addr \<Rightarrow> addr \<Rightarrow> SmartLockControl store \<Rightarrow> SmartLockControl store" where
  "SmartLockControl_move_assign this other h =
     (if this \<noteq> other then
        let h1 = h(this := (h this)\<lparr>isLocked := isLocked (h other)\<rparr>);
            h2 = h1(other := (h1 other)\<lparr>isLocked := True\<rparr>)
        in h2
      else h)"

subsection \<open>GarageDoorControl\<close>

record GarageDoorControl =
  isOpen :: bool

definition GarageDoorControl_ctor :: "GarageDoorControl" where
  "GarageDoorControl_ctor = \<lparr>isOpen = False\<rparr>"

definition GarageDoorControl_doTurnOn :: "GarageDoorControl \<Rightarrow> GarageDoorControl \<times> string list" where
  "GarageDoorControl_doTurnOn this = (this\<lparr>isOpen := True\<rparr>, [''Garage Door is OPEN''])"

definition GarageDoorControl_doTurnOff :: "GarageDoorControl \<Rightarrow> GarageDoorControl \<times> string list" where
  "GarageDoorControl_doTurnOff this = (this\<lparr>isOpen := False\<rparr>, [''Garage Door is CLOSED''])"

definition GarageDoorControl_turnOn :: "GarageDoorControl \<Rightarrow> GarageDoorControl \<times> string list" where
  "GarageDoorControl_turnOn this = GarageDoorControl_doTurnOn this"

definition GarageDoorControl_turnOff :: "GarageDoorControl \<Rightarrow> GarageDoorControl \<times> string list" where
  "GarageDoorControl_turnOff this = GarageDoorControl_doTurnOff this"

definition getIsOpen :: "GarageDoorControl \<Rightarrow> bool" where
  "getIsOpen this = isOpen this"

definition GarageDoorControl_copy_ctor :: "GarageDoorControl \<Rightarrow> GarageDoorControl" where
  "GarageDoorControl_copy_ctor other = \<lparr>isOpen = isOpen other\<rparr>"

definition GarageDoorControl_copy_assign ::
  "addr \<Rightarrow> addr \<Rightarrow> GarageDoorControl store \<Rightarrow> GarageDoorControl store" where
  "GarageDoorControl_copy_assign this other h =
     (if this \<noteq> other then h(this := (h this)\<lparr>isOpen := isOpen (h other)\<rparr>) else h)"

definition GarageDoorControl_move_ctor :: "GarageDoorControl \<Rightarrow> GarageDoorControl \<times> GarageDoorControl" where
  "GarageDoorControl_move_ctor other =
     (let this = \<lparr>isOpen = isOpen other\<rparr>;
          other1 = other\<lparr>isOpen := False\<rparr>
      in (this, other1))"

definition GarageDoorControl_move_assign ::
  "addr \<Rightarrow> addr \<Rightarrow> GarageDoorControl store \<Rightarrow> GarageDoorControl store" where
  "GarageDoorControl_move_assign this other h =
     (if this \<noteq> other then
        let h1 = h(this := (h this)\<lparr>isOpen := isOpen (h other)\<rparr>);
            h2 = h1(other := (h1 other)\<lparr>isOpen := False\<rparr>)
        in h2
      else h)"

subsection \<open>runTests and main\<close>

text \<open>
  A failing \<^verbatim>\<open>assert\<close> aborts the process. \<open>runTests\<close> returns either the
  source line of the first assertion that fails or \<open>()\<close>, together with the lines
  printed up to that point.
\<close>

datatype abort = AssertionFailed nat

definition runTests :: "(abort + unit) \<times> string list" where
  "runTests =
     (let out = [];
          light = LightControl_ctor in
      if \<not> (\<not> isLightOn light) then (Inl (AssertionFailed 228), out) else
      let (light, printed) = LightControl_turnOn light; out = out @ printed in
      if \<not> isLightOn light then (Inl (AssertionFailed 231), out) else
      let (light, printed) = LightControl_turnOff light; out = out @ printed in
      if \<not> (\<not> isLightOn light) then (Inl (AssertionFailed 234), out) else
      let thermostat = ThermostatControl_ctor in
      if \<not> (getTemperature thermostat = 20) then (Inl (AssertionFailed 238), out) else
      let (thermostat, printed) = setTemperature thermostat 25; out = out @ printed in
      if \<not> (getTemperature thermostat = 25) then (Inl (AssertionFailed 241), out) else
      let (thermostat, printed) = ThermostatControl_turnOff thermostat; out = out @ printed in
      let (thermostat, printed) = setTemperature thermostat 30; out = out @ printed in
      if \<not> (getTemperature thermostat = 25) then (Inl (AssertionFailed 245), out) else
      let lock = SmartLockControl_ctor in
      if \<not> (getLockStatus lock = True) then (Inl (AssertionFailed 249), out) else
      let (lock, printed) = SmartLockControl_turnOn lock; out = out @ printed in
      if \<not> (\<not> getLockStatus lock) then (Inl (AssertionFailed 252), out) else
      let (lock, printed) = SmartLockControl_turnOff lock; out = out @ printed in
      if \<not> getLockStatus lock then (Inl (AssertionFailed 255), out) else
      let garageDoor = GarageDoorControl_ctor in
      if \<not> (\<not> getIsOpen garageDoor) then (Inl (AssertionFailed 259), out) else
      let (garageDoor, printed) = GarageDoorControl_turnOn garageDoor; out = out @ printed in
      if \<not> getIsOpen garageDoor then (Inl (AssertionFailed 262), out) else
      let (garageDoor, printed) = GarageDoorControl_turnOff garageDoor; out = out @ printed in
      if \<not> (\<not> getIsOpen garageDoor) then (Inl (AssertionFailed 265), out) else
      (Inr (), out))"

text \<open>
  \<^verbatim>\<open>main\<close> returns 0 after \<^verbatim>\<open>runTests\<close> has returned; when an assertion has
  aborted the process there is no exit code.
\<close>

datatype exit_status = Returned int | Aborted abort

definition main :: "exit_status \<times> string list" where
  "main =
     (case runTests of
        (Inl a, out) \<Rightarrow> (Aborted a, out)
      | (Inr _, out) \<Rightarrow> (Returned 0, out))"

subsection \<open>The thermostat's invariant\<close>

definition temperature_in_range :: "ThermostatControl \<Rightarrow> bool" where
  "temperature_in_range s \<longleftrightarrow> 10 \<le> sint (temperature s) \<and> sint (temperature s) \<le> 30"

text \<open>
  A step from \<open>s\<close> to \<open>s'\<close> of one thermostat respects the invariant of the data
  model when it changes the temperature only if \<open>s\<close> is on, and then to a value
  between 10 and 30.
\<close>

definition temperature_change_ok :: "ThermostatControl \<Rightarrow> ThermostatControl \<Rightarrow> bool" where
  "temperature_change_ok s s' \<longleftrightarrow>
     (temperature s' \<noteq> temperature s \<longrightarrow> ThermostatControl.isOn s \<and> temperature_in_range s')"

text \<open>
  The thermostats that default construction, copy construction, \<^verbatim>\<open>turnOn\<close>,
  \<^verbatim>\<open>turnOff\<close> and \<^verbatim>\<open>setTemperature\<close> produce.
\<close>

inductive reachable :: "ThermostatControl \<Rightarrow> bool" where
  reachable_ctor: "reachable ThermostatControl_ctor"
| reachable_copy: "reachable s \<Longrightarrow> reachable (ThermostatControl_copy_ctor s)"
| reachable_turnOn: "reachable s \<Longrightarrow> reachable (fst (ThermostatControl_turnOn s))"
| reachable_turnOff: "reachable s \<Longrightarrow> reachable (fst (ThermostatControl_turnOff s))"
| reachable_setTemperature: "reachable s \<Longrightarrow> reachable (fst (setTemperature s temp))"

section \<open>Unfolding rules\<close>

lemmas light_defs = LightControl_ctor_def LightControl_doTurnOn_def LightControl_doTurnOff_def
  LightControl_turnOn_def LightControl_turnOff_def isLightOn_def

lemmas thermostat_defs = ThermostatControl_ctor_def ThermostatControl_doTurnOn_def
  ThermostatControl_doTurnOff_def ThermostatControl_turnOn_def ThermostatControl_turnOff_def
  setTemperature_def getTemperature_def

lemmas lock_defs = SmartLockControl_ctor_def SmartLockControl_doTurnOn_def
  SmartLockControl_doTurnOff_def SmartLockControl_turnOn_def SmartLockControl_turnOff_def
  getLockStatus_def

lemmas door_defs = GarageDoorControl_ctor_def GarageDoorControl_doTurnOn_def
  GarageDoorControl_doTurnOff_def GarageDoorControl_turnOn_def GarageDoorControl_turnOff_def
  getIsOpen_def

section \<open>Initial states\<close>

text \<open>
  C6: each default-constructed device starts in the documented initial state: the
  light is off, the thermostat is off with temperature 20, the smart lock is locked and
  the garage door is closed.
\<close>

theorem initial_states:
  "\<not> isLightOn LightControl_ctor
   \<and> \<not> ThermostatControl.isOn ThermostatControl_ctor
   \<and> getTemperature ThermostatControl_ctor = 20
   \<and> sint (getTemperature ThermostatControl_ctor) = 20
   \<and> getLockStatus SmartLockControl_ctor
   \<and> \<not> getIsOpen GarageDoorControl_ctor"
  by (simp add: LightControl_ctor_def ThermostatControl_ctor_def SmartLockControl_ctor_def
      GarageDoorControl_ctor_def isLightOn_def getTemperature_def getLockStatus_def getIsOpen_def)

section \<open>The thermostat's invariant and the operations of the class\<close>

lemma turnOn_change_ok: "temperature_change_ok this (fst (ThermostatControl_turnOn this))"
  by (simp add: temperature_change_ok_def thermostat_defs)

lemma turnOff_change_ok: "temperature_change_ok this (fst (ThermostatControl_turnOff this))"
  by (simp add: temperature_change_ok_def thermostat_defs)

lemma setTemperature_change_ok: "temperature_change_ok this (fst (setTemperature this temp))"
  by (simp add: temperature_change_ok_def temperature_in_range_def thermostat_defs)

lemma copy_ctor_eq: "ThermostatControl_copy_ctor other = other"
  by (simp add: ThermostatControl_copy_ctor_def)

lemma reachable_in_range: "reachable s \<Longrightarrow> temperature_in_range s"
proof (induction rule: reachable.induct)
  case reachable_ctor
  show ?case by (simp add: temperature_in_range_def ThermostatControl_ctor_def)
next
  case (reachable_copy s)
  then show ?case by (simp add: copy_ctor_eq)
next
  case (reachable_turnOn s)
  then show ?case by (simp add: temperature_in_range_def thermostat_defs)
next
  case (reachable_turnOff s)
  then show ?case by (simp add: temperature_in_range_def thermostat_defs)
next
  case (reachable_setTemperature s temp)
  then show ?case by (simp add: temperature_in_range_def thermostat_defs)
qed

lemma thermostat_copy_assign_target:
  "(ThermostatControl_copy_assign this other h) this = h other"
  by (simp add: ThermostatControl_copy_assign_def Let_def)

lemma thermostat_move_assign_distinct:
  "this \<noteq> other \<Longrightarrow>
     (ThermostatControl_move_assign this other h) this = h other
     \<and> (ThermostatControl_move_assign this other h) other
         = \<lparr>ThermostatControl.isOn = False, temperature = 0\<rparr>"
  by (simp add: ThermostatControl_move_assign_def Let_def)

lemma thermostat_move_ctor_eq:
  "ThermostatControl_move_ctor other
     = (other, \<lparr>ThermostatControl.isOn = False, temperature = 0\<rparr>)"
  by (simp add: ThermostatControl_move_ctor_def Let_def)

text \<open>
  C1, as stated, fails: the claim lists the move operations among those that preserve
  the invariant, but the move constructor applied to a default-constructed thermostat
  (off, temperature 20) leaves the moved-from object with temperature 0. Its temperature
  has changed while it was off, and the new value is not between 10 and 30.
\<close>

theorem move_breaks_thermostat_invariant:
  "reachable ThermostatControl_ctor
   \<and> \<not> temperature_change_ok ThermostatControl_ctor
         (snd (ThermostatControl_move_ctor ThermostatControl_ctor))
   \<and> \<not> temperature_in_range (snd (ThermostatControl_move_ctor ThermostatControl_ctor))"
  using reachable_ctor
  by (simp add: temperature_change_ok_def temperature_in_range_def
      thermostat_move_ctor_eq ThermostatControl_ctor_def)

text \<open>
  C1, amended: default construction gives a temperature between 10 and 30;
  \<^verbatim>\<open>turnOn\<close>, \<^verbatim>\<open>turnOff\<close> and \<^verbatim>\<open>setTemperature\<close> change the temperature only while the
  thermostat is on and only to a value between 10 and 30; a copy-constructed thermostat
  equals its source; so every thermostat reachable through these operations has a
  temperature between 10 and 30. Copy assignment and move assignment give the target the
  source's fields whatever the target's on flag, the move constructor gives the new
  object the source's fields, and a move leaves the temperature of a distinct moved-from
  object at 0.
\<close>

theorem thermostat_invariant:
  "temperature_in_range ThermostatControl_ctor
   \<and> temperature_change_ok this (fst (ThermostatControl_turnOn this))
   \<and> temperature_change_ok this (fst (ThermostatControl_turnOff this))
   \<and> temperature_change_ok this (fst (setTemperature this temp))
   \<and> ThermostatControl_copy_ctor this = this
   \<and> (reachable this \<longrightarrow> temperature_in_range this)
   \<and> (ThermostatControl_copy_assign a b h) a = h b
   \<and> fst (ThermostatControl_move_ctor this) = this
   \<and> temperature (snd (ThermostatControl_move_ctor this)) = 0
   \<and> (a \<noteq> b \<longrightarrow> (ThermostatControl_move_assign a b h) a = h b
         \<and> temperature ((ThermostatControl_move_assign a b h) b) = 0)"
proof -
  have "temperature_in_range ThermostatControl_ctor"
    by (rule reachable_in_range) (rule reachable_ctor)
  moreover have "a \<noteq> b \<longrightarrow> (ThermostatControl_move_assign a b h) a = h b
         \<and> temperature ((ThermostatControl_move_assign a b h) b) = 0"
    by (simp add: thermostat_move_assign_distinct)
  ultimately show ?thesis
    by (simp add: turnOn_change_ok turnOff_change_ok setTemperature_change_ok copy_ctor_eq
        reachable_in_range thermostat_copy_assign_target thermostat_move_ctor_eq)
qed

text \<open>
  The amended C1 at a thermostat that has been turned on: it is reachable, setting 25
  changes its temperature, and move assignment between the distinct addresses 0 and 1
  resets the object at address 1.
\<close>

theorem thermostat_invariant_witness:
  "reachable (fst (ThermostatControl_turnOn ThermostatControl_ctor))
   \<and> temperature_in_range (fst (ThermostatControl_turnOn ThermostatControl_ctor))
   \<and> temperature (fst (setTemperature (fst (ThermostatControl_turnOn ThermostatControl_ctor)) 25))
       \<noteq> temperature (fst (ThermostatControl_turnOn ThermostatControl_ctor))
   \<and> temperature_change_ok (fst (ThermostatControl_turnOn ThermostatControl_ctor))
       (fst (setTemperature (fst (ThermostatControl_turnOn ThermostatControl_ctor)) 25))
   \<and> (0::addr) \<noteq> 1
   \<and> (ThermostatControl_move_assign 0 1
         (undefined(0 := ThermostatControl_ctor,
                    1 := fst (ThermostatControl_turnOn ThermostatControl_ctor)))) 0
       = fst (ThermostatControl_turnOn ThermostatControl_ctor)
   \<and> temperature ((ThermostatControl_move_assign 0 1
         (undefined(0 := ThermostatControl_ctor,
                    1 := fst (ThermostatControl_turnOn ThermostatControl_ctor)))) 1) = 0"
proof -
  have r: "reachable (fst (ThermostatControl_turnOn ThermostatControl_ctor))"
    by (rule reachable_turnOn) (rule reachable_ctor)
  have d: "(0::addr) \<noteq> 1" by simp
  note t = thermostat_invariant [of "fst (ThermostatControl_turnOn ThermostatControl_ctor)" 25
      0 1 "undefined(0 := ThermostatControl_ctor,
                    1 := fst (ThermostatControl_turnOn ThermostatControl_ctor))"]
  have "temperature (fst (setTemperature (fst (ThermostatControl_turnOn ThermostatControl_ctor)) 25))
       \<noteq> temperature (fst (ThermostatControl_turnOn ThermostatControl_ctor))"
    by (simp add: thermostat_defs)
  with r d t show ?thesis by simp
qed

section \<open>The test harness\<close>

text \<open>
  C2: the claim is that every assertion of \<^verbatim>\<open>runTests\<close> holds and the process exits
  with code 0. The harness calls \<^verbatim>\<open>setTemperature(25)\<close> on a thermostat that was never
  turned on, so the call prints the off notice and leaves the temperature at 20; the
  assertion of line 241, \<^verbatim>\<open>getTemperature() == 25\<close>, fails and the process aborts
  after three printed lines.
\<close>

theorem runTests_aborts:
  "runTests =
     (Inl (AssertionFailed 241),
      [''Light is ON'', ''Light is OFF'', ''Cannot set temperature, thermostat is off.''])
   \<and> main =
     (Aborted (AssertionFailed 241),
      [''Light is ON'', ''Light is OFF'', ''Cannot set temperature, thermostat is off.''])
   \<and> fst main \<noteq> Returned 0"
  by (simp add: runTests_def main_def light_defs thermostat_defs)

section \<open>setTemperature\<close>

text \<open>
  C3: for every thermostat and every int value, \<^verbatim>\<open>setTemperature\<close> is a validation
  with two guards, the off check first: when the thermostat is off it prints the off
  notice and leaves the state unchanged whatever the value; otherwise, when the value
  is below 10 or above 30, it prints the range notice and leaves the state unchanged;
  otherwise it stores the value. In particular \<^verbatim>\<open>turnOn\<close> followed by
  \<^verbatim>\<open>setTemperature(25)\<close> makes \<^verbatim>\<open>getTemperature\<close> return 25.
\<close>

theorem setTemperature_two_guards:
  "setTemperature this temp =
     (if \<not> ThermostatControl.isOn this then
        (this, [''Cannot set temperature, thermostat is off.''])
      else if sint temp < 10 \<or> 30 < sint temp then
        (this, [''Invalid temperature. Temperature must be between 10 and 30.''])
      else
        (this\<lparr>temperature := temp\<rparr>,
         [''Thermostat temperature set to: '' @ show_int (sint temp)]))
   \<and> getTemperature (fst (setTemperature (fst (ThermostatControl_turnOn this)) 25)) = 25"
  by (auto simp add: thermostat_defs)

text \<open>
  C4: for a thermostat that is on, \<^verbatim>\<open>setTemperature(5)\<close> and
  \<^verbatim>\<open>setTemperature(31)\<close> are rejected and leave the temperature (and the whole
  state) unchanged, while \<^verbatim>\<open>setTemperature(10)\<close> and \<^verbatim>\<open>setTemperature(30)\<close> are
  accepted: the bounds are inclusive. For any thermostat, after \<^verbatim>\<open>turnOff\<close> a call of
  \<^verbatim>\<open>setTemperature(30)\<close> leaves \<^verbatim>\<open>getTemperature\<close> at its prior value.
\<close>

theorem setTemperature_bounds:
  "ThermostatControl.isOn this \<Longrightarrow>
     fst (setTemperature this 5) = this
     \<and> getTemperature (fst (setTemperature this 5)) = getTemperature this
     \<and> fst (setTemperature this 31) = this
     \<and> getTemperature (fst (setTemperature this 31)) = getTemperature this
     \<and> getTemperature (fst (setTemperature this 10)) = 10
     \<and> getTemperature (fst (setTemperature this 30)) = 30
     \<and> getTemperature (fst (setTemperature (fst (ThermostatControl_turnOff that)) 30))
         = getTemperature that"
  by (simp add: thermostat_defs)

text \<open>
  C4 at the default-constructed thermostat after \<^verbatim>\<open>turnOn\<close>: it is on, the
  rejected values leave its temperature at 20, and the bounds are stored.
\<close>

theorem setTemperature_bounds_witness:
  "ThermostatControl.isOn (fst (ThermostatControl_turnOn ThermostatControl_ctor))
   \<and> getTemperature (fst (setTemperature (fst (ThermostatControl_turnOn ThermostatControl_ctor)) 5)) = 20
   \<and> getTemperature (fst (setTemperature (fst (ThermostatControl_turnOn ThermostatControl_ctor)) 31)) = 20
   \<and> getTemperature (fst (setTemperature (fst (ThermostatControl_turnOn ThermostatControl_ctor)) 10)) = 10
   \<and> getTemperature (fst (setTemperature (fst (ThermostatControl_turnOn ThermostatControl_ctor)) 30)) = 30
   \<and> getTemperature (fst (setTemperature (fst (ThermostatControl_turnOff
        (fst (ThermostatControl_turnOn ThermostatControl_ctor)))) 30)) = 20"
proof -
  have on: "ThermostatControl.isOn (fst (ThermostatControl_turnOn ThermostatControl_ctor))"
    by (simp add: ThermostatControl_turnOn_def ThermostatControl_doTurnOn_def)
  have t: "getTemperature (fst (ThermostatControl_turnOn ThermostatControl_ctor)) = 20"
    by (simp add: thermostat_defs)
  from on t setTemperature_bounds [OF on, of "fst (ThermostatControl_turnOn ThermostatControl_ctor)"]
  show ?thesis by simp
qed

text \<open>
  C10: for every thermostat and argument, \<^verbatim>\<open>turnOn\<close> and \<^verbatim>\<open>turnOff\<close> write the on
  flag only and never the temperature, and \<^verbatim>\<open>setTemperature\<close> writes the temperature
  only and never the on flag.
\<close>

theorem thermostat_frame:
  "fst (ThermostatControl_turnOn this) = this\<lparr>ThermostatControl.isOn := True\<rparr>
   \<and> temperature (fst (ThermostatControl_turnOn this)) = temperature this
   \<and> fst (ThermostatControl_turnOff this) = this\<lparr>ThermostatControl.isOn := False\<rparr>
   \<and> temperature (fst (ThermostatControl_turnOff this)) = temperature this
   \<and> fst (setTemperature this temp)
       = this\<lparr>temperature := temperature (fst (setTemperature this temp))\<rparr>
   \<and> ThermostatControl.isOn (fst (setTemperature this temp)) = ThermostatControl.isOn this"
  by (simp add: thermostat_defs)

section \<open>Turning a device on and off again\<close>

text \<open>
  C5, as stated, fails: the claim is for every starting state, but a light that is
  already on, a lock that is already unlocked and a garage door that is already open do
  not return to that state after \<^verbatim>\<open>turnOn\<close> and \<^verbatim>\<open>turnOff\<close>.
\<close>

theorem round_trip_from_on_fails:
  "fst (LightControl_turnOff (fst (LightControl_turnOn \<lparr>LightControl.isOn = True\<rparr>)))
     \<noteq> \<lparr>LightControl.isOn = True\<rparr>
   \<and> fst (SmartLockControl_turnOff (fst (SmartLockControl_turnOn \<lparr>isLocked = False\<rparr>)))
     \<noteq> \<lparr>isLocked = False\<rparr>
   \<and> fst (GarageDoorControl_turnOff (fst (GarageDoorControl_turnOn \<lparr>isOpen = True\<rparr>)))
     \<noteq> \<lparr>isOpen = True\<rparr>"
  by (simp add: light_defs lock_defs door_defs)

text \<open>
  C5, amended: from every starting state, \<^verbatim>\<open>turnOn\<close> followed by \<^verbatim>\<open>turnOff\<close> leaves
  the light off, the smart lock locked and the garage door closed; this is the state
  before the activation when the light was off, the lock was locked and the door was
  closed.
\<close>

theorem round_trip:
  "fst (LightControl_turnOff (fst (LightControl_turnOn light))) = \<lparr>LightControl.isOn = False\<rparr>
   \<and> fst (SmartLockControl_turnOff (fst (SmartLockControl_turnOn lock))) = \<lparr>isLocked = True\<rparr>
   \<and> fst (GarageDoorControl_turnOff (fst (GarageDoorControl_turnOn garageDoor))) = \<lparr>isOpen = False\<rparr>
   \<and> (\<not> isLightOn light \<longrightarrow>
         fst (LightControl_turnOff (fst (LightControl_turnOn light))) = light)
   \<and> (getLockStatus lock \<longrightarrow>
         fst (SmartLockControl_turnOff (fst (SmartLockControl_turnOn lock))) = lock)
   \<and> (\<not> getIsOpen garageDoor \<longrightarrow>
         fst (GarageDoorControl_turnOff (fst (GarageDoorControl_turnOn garageDoor))) = garageDoor)"
  by (cases light, cases lock, cases garageDoor) (simp add: light_defs lock_defs door_defs)

text \<open>
  The amended C5 at the default-constructed devices, which are off, locked and closed.
\<close>

theorem round_trip_witness:
  "\<not> isLightOn LightControl_ctor
   \<and> fst (LightControl_turnOff (fst (LightControl_turnOn LightControl_ctor))) = LightControl_ctor
   \<and> getLockStatus SmartLockControl_ctor
   \<and> fst (SmartLockControl_turnOff (fst (SmartLockControl_turnOn SmartLockControl_ctor)))
       = SmartLockControl_ctor
   \<and> \<not> getIsOpen GarageDoorControl_ctor
   \<and> fst (GarageDoorControl_turnOff (fst (GarageDoorControl_turnOn GarageDoorControl_ctor)))
       = GarageDoorControl_ctor"
proof -
  have l: "\<not> isLightOn LightControl_ctor" by (simp add: light_defs)
  have k: "getLockStatus SmartLockControl_ctor" by (simp add: lock_defs)
  have g: "\<not> getIsOpen GarageDoorControl_ctor" by (simp add: door_defs)
  from l k g round_trip [of LightControl_ctor SmartLockControl_ctor GarageDoorControl_ctor]
  show ?thesis by blast
qed

section \<open>The smart lock\<close>

text \<open>
  C7: a default-constructed smart lock reports locked; after \<^verbatim>\<open>turnOn\<close> it reports
  unlocked and after \<^verbatim>\<open>turnOff\<close> locked again. For every prior state \<^verbatim>\<open>turnOn\<close> sets
  \<^verbatim>\<open>isLocked\<close> to false and \<^verbatim>\<open>turnOff\<close> sets it to true.
\<close>

theorem smart_lock_polarity:
  "getLockStatus SmartLockControl_ctor
   \<and> \<not> getLockStatus (fst (SmartLockControl_turnOn SmartLockControl_ctor))
   \<and> getLockStatus (fst (SmartLockControl_turnOff (fst (SmartLockControl_turnOn SmartLockControl_ctor))))
   \<and> fst (SmartLockControl_turnOn this) = this\<lparr>isLocked := False\<rparr>
   \<and> \<not> getLockStatus (fst (SmartLockControl_turnOn this))
   \<and> fst (SmartLockControl_turnOff this) = this\<lparr>isLocked := True\<rparr>
   \<and> getLockStatus (fst (SmartLockControl_turnOff this))"
  by (simp add: lock_defs)

section \<open>Console output\<close>

lemma show_nat_two_digits:
  "10 \<le> n \<Longrightarrow> n < 100 \<Longrightarrow> show_nat n = [digit (n div 10), digit (n mod 10)]"
proof -
  assume a: "10 \<le> n" and b: "n < 100"
  have "n div 10 < 10" using b by simp
  then have "show_nat (n div 10) = [digit (n div 10)]"
    by (simp add: show_nat.simps [of "n div 10"])
  with a show ?thesis
    by (simp add: show_nat.simps [of n])
qed

lemma accepted_line_table:
  assumes "ThermostatControl.isOn thermostat"
  shows
    "snd (setTemperature thermostat 10) = [''Thermostat temperature set to: 10'']"
    "snd (setTemperature thermostat 11) = [''Thermostat temperature set to: 11'']"
    "snd (setTemperature thermostat 12) = [''Thermostat temperature set to: 12'']"
    "snd (setTemperature thermostat 13) = [''Thermostat temperature set to: 13'']"
    "snd (setTemperature thermostat 14) = [''Thermostat temperature set to: 14'']"
    "snd (setTemperature thermostat 15) = [''Thermostat temperature set to: 15'']"
    "snd (setTemperature thermostat 16) = [''Thermostat temperature set to: 16'']"
    "snd (setTemperature thermostat 17) = [''Thermostat temperature set to: 17'']"
    "snd (setTemperature thermostat 18) = [''Thermostat temperature set to: 18'']"
    "snd (setTemperature thermostat 19) = [''Thermostat temperature set to: 19'']"
    "snd (setTemperature thermostat 20) = [''Thermostat temperature set to: 20'']"
    "snd (setTemperature thermostat 21) = [''Thermostat temperature set to: 21'']"
    "snd (setTemperature thermostat 22) = [''Thermostat temperature set to: 22'']"
    "snd (setTemperature thermostat 23) = [''Thermostat temperature set to: 23'']"
    "snd (setTemperature thermostat 24) = [''Thermostat temperature set to: 24'']"
    "snd (setTemperature thermostat 25) = [''Thermostat temperature set to: 25'']"
    "snd (setTemperature thermostat 26) = [''Thermostat temperature set to: 26'']"
    "snd (setTemperature thermostat 27) = [''Thermostat temperature set to: 27'']"
    "snd (setTemperature thermostat 28) = [''Thermostat temperature set to: 28'']"
    "snd (setTemperature thermostat 29) = [''Thermostat temperature set to: 29'']"
    "snd (setTemperature thermostat 30) = [''Thermostat temperature set to: 30'']"
  using assms
  by (simp_all add: setTemperature_def show_int_def show_nat_two_digits digit_def)

lemma accepted_values:
  fixes temp :: cint
  assumes "10 \<le> sint temp" and "sint temp \<le> 30"
  shows "temp \<in> set [10, 11, 12, 13, 14, 15, 16, 17, 18, 19, 20,
                      21, 22, 23, 24, 25, 26, 27, 28, 29, 30]"
proof -
  from assms have "sint temp \<in> {10, 11, 12, 13, 14, 15, 16, 17, 18, 19, 20,
                      21, 22, 23, 24, 25, 26, 27, 28, 29, 30}"
    by (simp only: insert_iff empty_iff) arith
  then have "word_of_int (sint temp) \<in> (word_of_int ` {10, 11, 12, 13, 14, 15, 16, 17, 18, 19, 20,
                      21, 22, 23, 24, 25, 26, 27, 28, 29, 30} :: cint set)"
    by (rule imageI)
  then show ?thesis by simp
qed

lemma accepted_lines:
  assumes on: "ThermostatControl.isOn thermostat" and "10 \<le> sint temp" and "sint temp \<le> 30"
  shows "(temp, snd (setTemperature thermostat temp)) \<in> set [
         (10, [''Thermostat temperature set to: 10'']),
          (11, [''Thermostat temperature set to: 11'']),
          (12, [''Thermostat temperature set to: 12'']),
          (13, [''Thermostat temperature set to: 13'']),
          (14, [''Thermostat temperature set to: 14'']),
          (15, [''Thermostat temperature set to: 15'']),
          (16, [''Thermostat temperature set to: 16'']),
          (17, [''Thermostat temperature set to: 17'']),
          (18, [''Thermostat temperature set to: 18'']),
          (19, [''Thermostat temperature set to: 19'']),
          (20, [''Thermostat temperature set to: 20'']),
          (21, [''Thermostat temperature set to: 21'']),
          (22, [''Thermostat temperature set to: 22'']),
          (23, [''Thermostat temperature set to: 23'']),
          (24, [''Thermostat temperature set to: 24'']),
          (25, [''Thermostat temperature set to: 25'']),
          (26, [''Thermostat temperature set to: 26'']),
          (27, [''Thermostat temperature set to: 27'']),
          (28, [''Thermostat temperature set to: 28'']),
          (29, [''Thermostat temperature set to: 29'']),
          (30, [''Thermostat temperature set to: 30''])]"
proof -
  from assms(2,3) have "temp \<in> set [10, 11, 12, 13, 14, 15, 16, 17, 18, 19, 20,
                      21, 22, 23, 24, 25, 26, 27, 28, 29, 30]"
    by (rule accepted_values)
  then have "temp = 10 \<or> temp = 11 \<or> temp = 12 \<or> temp = 13 \<or> temp = 14 \<or> temp = 15
      \<or> temp = 16 \<or> temp = 17 \<or> temp = 18 \<or> temp = 19 \<or> temp = 20 \<or> temp = 21
      \<or> temp = 22 \<or> temp = 23 \<or> temp = 24 \<or> temp = 25 \<or> temp = 26 \<or> temp = 27
      \<or> temp = 28 \<or> temp = 29 \<or> temp = 30"
    by simp
  then show ?thesis
    by (elim disjE) (simp_all add: accepted_line_table [OF on])
qed

text \<open>
  C8: every call of \<^verbatim>\<open>turnOn\<close>, \<^verbatim>\<open>turnOff\<close> or \<^verbatim>\<open>setTemperature\<close> prints exactly one
  line, and the line is the documented string of the operation. The accepting branch
  of \<^verbatim>\<open>setTemperature\<close> prints \<^verbatim>\<open>Thermostat temperature set to: \<close> followed by the
  requested value in decimal: for each of the accepted values 10 to 30 the printed line
  is the one listed beside the value. The constructors, the getters and the copy and
  move operations contain no output statement, so their embeddings return no lines.
\<close>

theorem console_lines:
  "snd (LightControl_turnOn light) = [''Light is ON'']
   \<and> snd (LightControl_turnOff light) = [''Light is OFF'']
   \<and> snd (ThermostatControl_turnOn thermostat) = [''Thermostat is ON'']
   \<and> snd (ThermostatControl_turnOff thermostat) = [''Thermostat is OFF'']
   \<and> snd (SmartLockControl_turnOn lock) = [''Smart Lock is UNLOCKED'']
   \<and> snd (SmartLockControl_turnOff lock) = [''Smart Lock is LOCKED'']
   \<and> snd (GarageDoorControl_turnOn garageDoor) = [''Garage Door is OPEN'']
   \<and> snd (GarageDoorControl_turnOff garageDoor) = [''Garage Door is CLOSED'']
   \<and> length (snd (setTemperature thermostat temp)) = 1
   \<and> snd (setTemperature thermostat temp) =
       [if \<not> ThermostatControl.isOn thermostat then
          ''Cannot set temperature, thermostat is off.''
        else if sint temp < 10 \<or> 30 < sint temp then
          ''Invalid temperature. Temperature must be between 10 and 30.''
        else ''Thermostat temperature set to: '' @ show_int (sint temp)]
   \<and> snd (setTemperature (fst (ThermostatControl_turnOn thermostat)) 25)
       = [''Thermostat temperature set to: 25'']
   \<and> (ThermostatControl.isOn thermostat \<and> 10 \<le> sint temp \<and> sint temp \<le> 30 \<longrightarrow>
         (temp, snd (setTemperature thermostat temp)) \<in> set [
         (10, [''Thermostat temperature set to: 10'']),
          (11, [''Thermostat temperature set to: 11'']),
          (12, [''Thermostat temperature set to: 12'']),
          (13, [''Thermostat temperature set to: 13'']),
          (14, [''Thermostat temperature set to: 14'']),
          (15, [''Thermostat temperature set to: 15'']),
          (16, [''Thermostat temperature set to: 16'']),
          (17, [''Thermostat temperature set to: 17'']),
          (18, [''Thermostat temperature set to: 18'']),
          (19, [''Thermostat temperature set to: 19'']),
          (20, [''Thermostat temperature set to: 20'']),
          (21, [''Thermostat temperature set to: 21'']),
          (22, [''Thermostat temperature set to: 22'']),
          (23, [''Thermostat temperature set to: 23'']),
          (24, [''Thermostat temperature set to: 24'']),
          (25, [''Thermostat temperature set to: 25'']),
          (26, [''Thermostat temperature set to: 26'']),
          (27, [''Thermostat temperature set to: 27'']),
          (28, [''Thermostat temperature set to: 28'']),
          (29, [''Thermostat temperature set to: 29'']),
          (30, [''Thermostat temperature set to: 30''])])"
proof -
  have fixed:
    "snd (LightControl_turnOn light) = [''Light is ON'']"
    "snd (LightControl_turnOff light) = [''Light is OFF'']"
    "snd (ThermostatControl_turnOn thermostat) = [''Thermostat is ON'']"
    "snd (ThermostatControl_turnOff thermostat) = [''Thermostat is OFF'']"
    "snd (SmartLockControl_turnOn lock) = [''Smart Lock is UNLOCKED'']"
    "snd (SmartLockControl_turnOff lock) = [''Smart Lock is LOCKED'']"
    "snd (GarageDoorControl_turnOn garageDoor) = [''Garage Door is OPEN'']"
    "snd (GarageDoorControl_turnOff garageDoor) = [''Garage Door is CLOSED'']"
    by (simp_all add: light_defs thermostat_defs lock_defs door_defs)
  have one: "length (snd (setTemperature thermostat temp)) = 1"
    by (simp add: setTemperature_def)
  have branches: "snd (setTemperature thermostat temp) =
       [if \<not> ThermostatControl.isOn thermostat then
          ''Cannot set temperature, thermostat is off.''
        else if sint temp < 10 \<or> 30 < sint temp then
          ''Invalid temperature. Temperature must be between 10 and 30.''
        else ''Thermostat temperature set to: '' @ show_int (sint temp)]"
    by (auto simp add: setTemperature_def)
  have "ThermostatControl.isOn (fst (ThermostatControl_turnOn thermostat))"
    by (simp add: ThermostatControl_turnOn_def ThermostatControl_doTurnOn_def)
  then have at25: "snd (setTemperature (fst (ThermostatControl_turnOn thermostat)) 25)
       = [''Thermostat temperature set to: 25'']"
    by (rule accepted_line_table)
  have accepted: "ThermostatControl.isOn thermostat \<and> 10 \<le> sint temp \<and> sint temp \<le> 30 \<longrightarrow>
         (temp, snd (setTemperature thermostat temp)) \<in> set [
         (10, [''Thermostat temperature set to: 10'']),
          (11, [''Thermostat temperature set to: 11'']),
          (12, [''Thermostat temperature set to: 12'']),
          (13, [''Thermostat temperature set to: 13'']),
          (14, [''Thermostat temperature set to: 14'']),
          (15, [''Thermostat temperature set to: 15'']),
          (16, [''Thermostat temperature set to: 16'']),
          (17, [''Thermostat temperature set to: 17'']),
          (18, [''Thermostat temperature set to: 18'']),
          (19, [''Thermostat temperature set to: 19'']),
          (20, [''Thermostat temperature set to: 20'']),
          (21, [''Thermostat temperature set to: 21'']),
          (22, [''Thermostat temperature set to: 22'']),
          (23, [''Thermostat temperature set to: 23'']),
          (24, [''Thermostat temperature set to: 24'']),
          (25, [''Thermostat temperature set to: 25'']),
          (26, [''Thermostat temperature set to: 26'']),
          (27, [''Thermostat temperature set to: 27'']),
          (28, [''Thermostat temperature set to: 28'']),
          (29, [''Thermostat temperature set to: 29'']),
          (30, [''Thermostat temperature set to: 30''])]"
  proof
    assume h: "ThermostatControl.isOn thermostat \<and> 10 \<le> sint temp \<and> sint temp \<le> 30"
    show "(temp, snd (setTemperature thermostat temp)) \<in> set [
         (10, [''Thermostat temperature set to: 10'']),
          (11, [''Thermostat temperature set to: 11'']),
          (12, [''Thermostat temperature set to: 12'']),
          (13, [''Thermostat temperature set to: 13'']),
          (14, [''Thermostat temperature set to: 14'']),
          (15, [''Thermostat temperature set to: 15'']),
          (16, [''Thermostat temperature set to: 16'']),
          (17, [''Thermostat temperature set to: 17'']),
          (18, [''Thermostat temperature set to: 18'']),
          (19, [''Thermostat temperature set to: 19'']),
          (20, [''Thermostat temperature set to: 20'']),
          (21, [''Thermostat temperature set to: 21'']),
          (22, [''Thermostat temperature set to: 22'']),
          (23, [''Thermostat temperature set to: 23'']),
          (24, [''Thermostat temperature set to: 24'']),
          (25, [''Thermostat temperature set to: 25'']),
          (26, [''Thermostat temperature set to: 26'']),
          (27, [''Thermostat temperature set to: 27'']),
          (28, [''Thermostat temperature set to: 28'']),
          (29, [''Thermostat temperature set to: 29'']),
          (30, [''Thermostat temperature set to: 30''])]"
      by (rule accepted_lines) (simp_all only: h)
  qed
  from fixed one branches at25 accepted show ?thesis
    by (intro conjI)
qed

text \<open>
  C8 at the default-constructed thermostat after \<^verbatim>\<open>turnOn\<close> and the accepted value
  10: the printed line ends in the digits 10.
\<close>

theorem console_lines_witness:
  "ThermostatControl.isOn (fst (ThermostatControl_turnOn ThermostatControl_ctor))
   \<and> 10 \<le> sint (10 :: cint) \<and> sint (10 :: cint) \<le> 30
   \<and> snd (setTemperature (fst (ThermostatControl_turnOn ThermostatControl_ctor)) 10)
       = [''Thermostat temperature set to: 10'']"
proof -
  have h: "ThermostatControl.isOn (fst (ThermostatControl_turnOn ThermostatControl_ctor))
      \<and> 10 \<le> sint (10 :: cint) \<and> sint (10 :: cint) \<le> 30"
    by (simp add: ThermostatControl_turnOn_def ThermostatControl_doTurnOn_def)
  have "ThermostatControl.isOn (fst (ThermostatControl_turnOn ThermostatControl_ctor))
      \<and> 10 \<le> sint (10 :: cint) \<and> sint (10 :: cint) \<le> 30 \<longrightarrow>
      (10 :: cint, snd (setTemperature (fst (ThermostatControl_turnOn ThermostatControl_ctor)) 10))
        \<in> set [
         (10, [''Thermostat temperature set to: 10'']),
          (11, [''Thermostat temperature set to: 11'']),
          (12, [''Thermostat temperature set to: 12'']),
          (13, [''Thermostat temperature set to: 13'']),
          (14, [''Thermostat temperature set to: 14'']),
          (15, [''Thermostat temperature set to: 15'']),
          (16, [''Thermostat temperature set to: 16'']),
          (17, [''Thermostat temperature set to: 17'']),
          (18, [''Thermostat temperature set to: 18'']),
          (19, [''Thermostat temperature set to: 19'']),
          (20, [''Thermostat temperature set to: 20'']),
          (21, [''Thermostat temperature set to: 21'']),
          (22, [''Thermostat temperature set to: 22'']),
          (23, [''Thermostat temperature set to: 23'']),
          (24, [''Thermostat temperature set to: 24'']),
          (25, [''Thermostat temperature set to: 25'']),
          (26, [''Thermostat temperature set to: 26'']),
          (27, [''Thermostat temperature set to: 27'']),
          (28, [''Thermostat temperature set to: 28'']),
          (29, [''Thermostat temperature set to: 29'']),
          (30, [''Thermostat temperature set to: 30''])]"
    using console_lines [of LightControl_ctor
        "fst (ThermostatControl_turnOn ThermostatControl_ctor)"
        SmartLockControl_ctor GarageDoorControl_ctor 10]
    by (elim conjE) assumption
  with h have "(10 :: cint, snd (setTemperature (fst (ThermostatControl_turnOn ThermostatControl_ctor)) 10))
        \<in> set [
         (10, [''Thermostat temperature set to: 10'']),
          (11, [''Thermostat temperature set to: 11'']),
          (12, [''Thermostat temperature set to: 12'']),
          (13, [''Thermostat temperature set to: 13'']),
          (14, [''Thermostat temperature set to: 14'']),
          (15, [''Thermostat temperature set to: 15'']),
          (16, [''Thermostat temperature set to: 16'']),
          (17, [''Thermostat temperature set to: 17'']),
          (18, [''Thermostat temperature set to: 18'']),
          (19, [''Thermostat temperature set to: 19'']),
          (20, [''Thermostat temperature set to: 20'']),
          (21, [''Thermostat temperature set to: 21'']),
          (22, [''Thermostat temperature set to: 22'']),
          (23, [''Thermostat temperature set to: 23'']),
          (24, [''Thermostat temperature set to: 24'']),
          (25, [''Thermostat temperature set to: 25'']),
          (26, [''Thermostat temperature set to: 26'']),
          (27, [''Thermostat temperature set to: 27'']),
          (28, [''Thermostat temperature set to: 28'']),
          (29, [''Thermostat temperature set to: 29'']),
          (30, [''Thermostat temperature set to: 30''])]"
    by (rule rev_mp)
  then have "snd (setTemperature (fst (ThermostatControl_turnOn ThermostatControl_ctor)) 10)
       = [''Thermostat temperature set to: 10'']"
    by simp
  with h show ?thesis by (simp only: simp_thms)
qed

section \<open>Moved-from objects\<close>

lemma light_moved_from:
  "snd (LightControl_move_ctor light) = \<lparr>LightControl.isOn = False\<rparr>"
  "this \<noteq> other \<Longrightarrow>
     (LightControl_move_assign this other h) other = \<lparr>LightControl.isOn = False\<rparr>"
  "LightControl_move_assign this this h = h"
  by (simp_all add: LightControl_move_ctor_def LightControl_move_assign_def Let_def)

lemma thermostat_moved_from:
  "snd (ThermostatControl_move_ctor thermostat)
     = \<lparr>ThermostatControl.isOn = False, temperature = 0\<rparr>"
  "this \<noteq> other \<Longrightarrow>
     (ThermostatControl_move_assign this other h) other
       = \<lparr>ThermostatControl.isOn = False, temperature = 0\<rparr>"
  "ThermostatControl_move_assign this this h = h"
  by (simp_all add: ThermostatControl_move_ctor_def ThermostatControl_move_assign_def Let_def)

lemma lock_moved_from:
  "snd (SmartLockControl_move_ctor lock) = \<lparr>isLocked = True\<rparr>"
  "this \<noteq> other \<Longrightarrow>
     (SmartLockControl_move_assign this other h) other = \<lparr>isLocked = True\<rparr>"
  "SmartLockControl_move_assign this this h = h"
  by (simp_all add: SmartLockControl_move_ctor_def SmartLockControl_move_assign_def Let_def)

lemma door_moved_from:
  "snd (GarageDoorControl_move_ctor garageDoor) = \<lparr>isOpen = False\<rparr>"
  "this \<noteq> other \<Longrightarrow>
     (GarageDoorControl_move_assign this other h) other = \<lparr>isOpen = False\<rparr>"
  "GarageDoorControl_move_assign this this h = h"
  by (simp_all add: GarageDoorControl_move_ctor_def GarageDoorControl_move_assign_def Let_def)

lemma zero_out_of_range:
  "\<not> temperature_in_range \<lparr>ThermostatControl.isOn = False, temperature = 0\<rparr>"
  by (simp add: temperature_in_range_def)

text \<open>
  C9, as stated, fails for a move assignment of an object to itself: the guard
  \<^verbatim>\<open>this != &other\<close> skips the body, so the moved-from object, which is also the
  target, keeps its state. A thermostat that is on at 25 and a light that is on stay so.
\<close>

theorem self_move_assign_keeps_state:
  "(ThermostatControl_move_assign 0 0
      (undefined(0 := \<lparr>ThermostatControl.isOn = True, temperature = 25\<rparr>))) 0
     = \<lparr>ThermostatControl.isOn = True, temperature = 25\<rparr>
   \<and> (ThermostatControl_move_assign 0 0
      (undefined(0 := \<lparr>ThermostatControl.isOn = True, temperature = 25\<rparr>))) 0
     \<noteq> \<lparr>ThermostatControl.isOn = False, temperature = 0\<rparr>
   \<and> (LightControl_move_assign 0 0 (undefined(0 := \<lparr>LightControl.isOn = True\<rparr>))) 0
     \<noteq> \<lparr>LightControl.isOn = False\<rparr>"
  by (simp add: ThermostatControl_move_assign_def LightControl_move_assign_def)

text \<open>
  C9, amended: move construction, and move assignment from an object other than the
  target, reset the moved-from object to a fixed state: the light to off, the garage
  door to closed, the smart lock to locked and the thermostat to off with temperature 0,
  which lies outside the range from 10 to 30. A move assignment of an object to itself
  changes nothing.
\<close>

theorem moved_from_state:
  "snd (LightControl_move_ctor light) = \<lparr>LightControl.isOn = False\<rparr>
   \<and> snd (ThermostatControl_move_ctor thermostat)
       = \<lparr>ThermostatControl.isOn = False, temperature = 0\<rparr>
   \<and> snd (SmartLockControl_move_ctor lock) = \<lparr>isLocked = True\<rparr>
   \<and> snd (GarageDoorControl_move_ctor garageDoor) = \<lparr>isOpen = False\<rparr>
   \<and> (this \<noteq> other \<longrightarrow>
         (LightControl_move_assign this other hl) other = \<lparr>LightControl.isOn = False\<rparr>
         \<and> (ThermostatControl_move_assign this other ht) other
             = \<lparr>ThermostatControl.isOn = False, temperature = 0\<rparr>
         \<and> (SmartLockControl_move_assign this other hk) other = \<lparr>isLocked = True\<rparr>
         \<and> (GarageDoorControl_move_assign this other hg) other = \<lparr>isOpen = False\<rparr>)
   \<and> \<not> temperature_in_range \<lparr>ThermostatControl.isOn = False, temperature = 0\<rparr>
   \<and> LightControl_move_assign this this hl = hl
   \<and> ThermostatControl_move_assign this this ht = ht
   \<and> SmartLockControl_move_assign this this hk = hk
   \<and> GarageDoorControl_move_assign this this hg = hg"
  by (simp add: light_moved_from thermostat_moved_from lock_moved_from door_moved_from
      zero_out_of_range)

text \<open>
  The amended C9 at the distinct addresses 0 and 1, moving from a light that is on, a
  thermostat that is on at 25, an unlocked lock and an open door at address 1.
\<close>

theorem moved_from_state_witness:
  "(0::addr) \<noteq> 1
   \<and> (LightControl_move_assign 0 1
        (undefined(0 := LightControl_ctor, 1 := \<lparr>LightControl.isOn = True\<rparr>))) 1
       = \<lparr>LightControl.isOn = False\<rparr>
   \<and> (ThermostatControl_move_assign 0 1
        (undefined(0 := ThermostatControl_ctor,
                   1 := \<lparr>ThermostatControl.isOn = True, temperature = 25\<rparr>))) 1
       = \<lparr>ThermostatControl.isOn = False, temperature = 0\<rparr>
   \<and> (SmartLockControl_move_assign 0 1
        (undefined(0 := SmartLockControl_ctor, 1 := \<lparr>isLocked = False\<rparr>))) 1
       = \<lparr>isLocked = True\<rparr>
   \<and> (GarageDoorControl_move_assign 0 1
        (undefined(0 := GarageDoorControl_ctor, 1 := \<lparr>isOpen = True\<rparr>))) 1
       = \<lparr>isOpen = False\<rparr>"
proof -
  have d: "(0::addr) \<noteq> 1" by simp
  from d moved_from_state [of LightControl_ctor ThermostatControl_ctor SmartLockControl_ctor
      GarageDoorControl_ctor 0 1
      "undefined(0 := LightControl_ctor, 1 := \<lparr>LightControl.isOn = True\<rparr>)"
      "undefined(0 := ThermostatControl_ctor,
                 1 := \<lparr>ThermostatControl.isOn = True, temperature = 25\<rparr>)"
      "undefined(0 := SmartLockControl_ctor, 1 := \<lparr>isLocked = False\<rparr>)"
      "undefined(0 := GarageDoorControl_ctor, 1 := \<lparr>isOpen = True\<rparr>)"]
  show ?thesis by blast
qed

end
